theory Spec2Isabelle
  imports Main "HOL-Library.Char_ord" "HOL-Library.List_Lexorder"
begin

section \<open>Strings\<close>

text \<open>
  Python \<open>str\<close> values are modelled as \<open>string\<close>. The order on strings used by
  \<open>sorted\<close> is the lexicographic order on character codes, which is what Python's string
  comparison computes. Case mapping is modelled on the ASCII letters; every other
  character is uncased and is mapped to itself.
\<close>

definition startswith :: "string \<Rightarrow> string \<Rightarrow> bool" where
  "startswith s p = (take (length p) s = p)"

definition endswith :: "string \<Rightarrow> string \<Rightarrow> bool" where
  "endswith s p = (length p \<le> length s \<and> drop (length s - length p) s = p)"

text \<open>
  \<open>s.replace(old, new)\<close>: every non-overlapping occurrence of \<open>old\<close>, found from the
  left, is replaced. With an empty \<open>old\<close> Python inserts \<open>new\<close> before every character
  and at the end.
\<close>

function replace :: "string \<Rightarrow> string \<Rightarrow> string \<Rightarrow> string" where
  "replace [] new s = new @ concat (map (\<lambda>c. c # new) s)"
| "replace (a # old) new [] = []"
| "replace (a # old) new (c # cs) =
     (if startswith (c # cs) (a # old)
      then new @ replace (a # old) new (drop (length (a # old)) (c # cs))
      else c # replace (a # old) new cs)"
  by pat_completeness auto
termination
  by (relation "measure (\<lambda>(old, new, s). length s)") auto

definition is_lower :: "char \<Rightarrow> bool" where
  "is_lower c = (CHR ''a'' \<le> c \<and> c \<le> CHR ''z'')"

definition is_upper :: "char \<Rightarrow> bool" where
  "is_upper c = (CHR ''A'' \<le> c \<and> c \<le> CHR ''Z'')"

definition is_cased :: "char \<Rightarrow> bool" where
  "is_cased c = (is_lower c \<or> is_upper c)"

definition to_upper :: "char \<Rightarrow> char" where
  "to_upper c = (if is_lower c then char_of (of_char c - (32::nat)) else c)"

definition to_lower :: "char \<Rightarrow> char" where
  "to_lower c = (if is_upper c then char_of (of_char c + (32::nat)) else c)"

text \<open>
  \<open>s.title()\<close>: a cased character is upper-cased when the character before it is not
  cased (or there is none) and lower-cased otherwise. The flag is Python's
  \<open>previous_is_cased\<close>.
\<close>

fun title_from :: "bool \<Rightarrow> string \<Rightarrow> string" where
  "title_from previous_is_cased [] = []"
| "title_from previous_is_cased (c # cs) =
     (if previous_is_cased then to_lower c else to_upper c) # title_from (is_cased c) cs"

definition title :: "string \<Rightarrow> string" where
  "title s = title_from False s"

text \<open>
  The expression \<open>filename.replace('.md', '').replace('_', ' ').replace('-', ' ').title()\<close>
  of \<open>save_doc_file\<close> and \<open>update_mkdocs_nav\<close>.
\<close>

definition derive_title :: "string \<Rightarrow> string" where
  "derive_title filename =
     title (replace ''-'' '' '' (replace ''_'' '' '' (replace ''.md'' '''' filename)))"

section \<open>The environment: process environment and remote host\<close>

type_synonym headers = "(string \<times> string) list"

text \<open>
  What \<open>requests\<close> raises: every member is a \<open>RequestException\<close>. \<open>HTTPError\<close> is raised by
  \<open>raise_for_status\<close>, the transport errors by \<open>requests.get\<close>.
\<close>

datatype request_exception = ConnectionError string | Timeout string | HTTPError nat

record 'a response =
  status_code :: nat
  payload :: 'a

record file_info =
  name :: string
  download_url :: string

text \<open>
  The environment of a run: the variable \<open>GITHUB_TOKEN\<close>, the answer of the contents API
  to a GET on a URL with headers (its JSON body decoded to a list of objects with
  \<open>name\<close> and \<open>download_url\<close>), and the answer to a GET on a download URL (the text of
  the body).
\<close>

record env =
  GITHUB_TOKEN :: "string option"
  get_json :: "string \<Rightarrow> headers \<Rightarrow> request_exception + file_info list response"
  get_text :: "string \<Rightarrow> headers \<Rightarrow> request_exception + string response"

definition CUMIND_REPO :: string where "CUMIND_REPO = ''carletonai/CuMind''"
definition CUMIND_BRANCH :: string where "CUMIND_BRANCH = ''dev''"
definition CUMIND_DOCS_PATH :: string where "CUMIND_DOCS_PATH = ''docs''"
definition GITHUB_API_BASE :: string where "GITHUB_API_BASE = ''https://api.github.com''"

definition get_github_token :: "env \<Rightarrow> string" where
  "get_github_token e = (case GITHUB_TOKEN e of None \<Rightarrow> '''' | Some t \<Rightarrow> t)"

definition auth_headers :: "env \<Rightarrow> headers" where
  "auth_headers e =
     (let token = get_github_token e
      in if token \<noteq> '''' then [(''Authorization'', ''token '' @ token)] else [])"

definition tree_url :: string where
  "tree_url = GITHUB_API_BASE @ ''/repos/'' @ CUMIND_REPO @ ''/contents/'' @ CUMIND_DOCS_PATH
              @ ''?ref='' @ CUMIND_BRANCH"

definition raise_for_status :: "'a response \<Rightarrow> request_exception + unit" where
  "raise_for_status r =
     (if 400 \<le> status_code r \<and> status_code r < 600 then Inl (HTTPError (status_code r))
      else Inr ())"

section \<open>The state: local files and console\<close>

text \<open>
  A parsed YAML document. Mappings keep the order of their keys, as Python dictionaries
  do; keys are strings, as in a site configuration.
\<close>

datatype yaml =
  YNull
  | YBool bool
  | YInt int
  | YStr string
  | YList "yaml list"
  | YDict "(string \<times> yaml) list"

text \<open>One constructor for each \<open>print\<close> of the script.\<close>

datatype notice =
  ErrorFetchingList request_exception
  | ErrorDownloading string request_exception
  | Saved string
  | NoFilesForNavigation
  | UpdatedNavigation
  | Starting
  | NoMarkdownFiles
  | Found nat
  | Completed

text \<open>
  \<open>cumind_dir\<close> is the directory \<open>docs/CuMind\<close>: \<open>None\<close> when it does not exist, else its
  files with their contents. \<open>mkdocs_yml\<close> is the document held by \<open>mkdocs.yml\<close>, \<open>None\<close>
  when the file does not exist. \<open>stdout\<close> is what has been printed.
\<close>

record world =
  cumind_dir :: "(string \<times> string) list option"
  mkdocs_yml :: "yaml option"
  stdout :: "notice list"

datatype py_error = FileNotFoundError | TypeError | KeyError

definition print :: "notice \<Rightarrow> world \<Rightarrow> world" where
  "print n w = w\<lparr>stdout := stdout w @ [n]\<rparr>"

text \<open>\<open>d[k] = v\<close> on a dictionary: an existing key keeps its place, a new key goes last.\<close>

fun dict_set :: "('k \<times> 'v) list \<Rightarrow> 'k \<Rightarrow> 'v \<Rightarrow> ('k \<times> 'v) list" where
  "dict_set [] k v = [(k, v)]"
| "dict_set ((k', v') # d) k v = (if k' = k then (k, v) # d else (k', v') # dict_set d k v)"

definition dict_get :: "('k \<times> 'v) list \<Rightarrow> 'k \<Rightarrow> 'v option" where
  "dict_get d k = map_of d k"

definition dict_has :: "('k \<times> 'v) list \<Rightarrow> 'k \<Rightarrow> bool" where
  "dict_has d k = (k \<in> set (map fst d))"

section \<open>The script\<close>

text \<open>The \<open>try\<close> block of \<open>fetch_docs_from_github\<close>: what it returns, or what it raises.\<close>

definition fetch_docs_try :: "env \<Rightarrow> request_exception + file_info list" where
  "fetch_docs_try e =
     (case get_json e tree_url (auth_headers e) of
        Inl ex \<Rightarrow> Inl ex
      | Inr response \<Rightarrow>
          (case raise_for_status response of
             Inl ex \<Rightarrow> Inl ex
           | Inr _ \<Rightarrow> Inr (filter (\<lambda>f. endswith (name f) ''.md'') (payload response))))"

definition fetch_docs_from_github :: "env \<Rightarrow> world \<Rightarrow> file_info list \<times> world" where
  "fetch_docs_from_github e w =
     (case fetch_docs_try e of
        Inr md_files \<Rightarrow> (md_files, w)
      | Inl ex \<Rightarrow> ([], print (ErrorFetchingList ex) w))"

text \<open>The \<open>try\<close> block of \<open>download_file\<close>.\<close>

definition download_try :: "env \<Rightarrow> file_info \<Rightarrow> headers \<Rightarrow> request_exception + string" where
  "download_try e file_info headers =
     (case get_text e (download_url file_info) headers of
        Inl ex \<Rightarrow> Inl ex
      | Inr response \<Rightarrow>
          (case raise_for_status response of
             Inl ex \<Rightarrow> Inl ex
           | Inr _ \<Rightarrow> Inr (payload response)))"

definition download_file :: "env \<Rightarrow> file_info \<Rightarrow> headers \<Rightarrow> world \<Rightarrow> string option \<times> world" where
  "download_file e file_info headers w =
     (case download_try e file_info headers of
        Inr text \<Rightarrow> (Some text, w)
      | Inl ex \<Rightarrow> (None, print (ErrorDownloading (name file_info) ex) w))"

definition ensure_cumind_docs_dir :: "world \<Rightarrow> world" where
  "ensure_cumind_docs_dir w =
     (case cumind_dir w of None \<Rightarrow> w\<lparr>cumind_dir := Some []\<rparr> | Some files \<Rightarrow> w)"

definition clean_cumind_docs_dir :: "world \<Rightarrow> world" where
  "clean_cumind_docs_dir w =
     ensure_cumind_docs_dir
       (case cumind_dir w of None \<Rightarrow> w | Some files \<Rightarrow> w\<lparr>cumind_dir := None\<rparr>)"

definition newline :: char where
  "newline = CHR 0x0A"

text \<open>The text \<open>save_doc_file\<close> writes for a file name and the content it is given.\<close>

definition with_frontmatter :: "string \<Rightarrow> string \<Rightarrow> string" where
  "with_frontmatter filename content =
     (if \<not> startswith content ''---''
      then ''---'' @ [newline] @ ''title: '' @ derive_title filename @ [newline] @ ''---''
           @ [newline, newline] @ content
      else content)"

text \<open>Opening a file for writing in a directory that does not exist fails.\<close>

definition save_doc_file :: "string \<Rightarrow> string \<Rightarrow> world \<Rightarrow> py_error option \<times> world" where
  "save_doc_file filename content w =
     (case cumind_dir w of
        None \<Rightarrow> (Some FileNotFoundError, w)
      | Some files \<Rightarrow>
          (None, print (Saved filename)
                   (w\<lparr>cumind_dir := Some (dict_set files filename (with_frontmatter filename content))\<rparr>)))"

text \<open>Lines 87 and 94 to 98 of \<open>update_mkdocs_nav\<close>: the sorted file names, and the section built from them.\<close>

definition cumind_files :: "(string \<times> string) list \<Rightarrow> string list" where
  "cumind_files files = sort (filter (\<lambda>f. endswith f ''.md'') (map fst files))"

definition cumind_nav :: "string list \<Rightarrow> yaml list" where
  "cumind_nav fs = map (\<lambda>file. YDict [(derive_title file, YStr (''CuMind/'' @ file))]) fs"

text \<open>\<open>isinstance(item, dict) and 'CuMind' in item\<close>.\<close>

fun is_cumind_item :: "yaml \<Rightarrow> bool" where
  "is_cumind_item (YDict d) = dict_has d ''CuMind''"
| "is_cumind_item _ = False"

text \<open>
  What the comprehension \<open>for item in config['nav']\<close> iterates over: the items of a list,
  the keys of a mapping, the characters of a string; anything else is not iterable.
\<close>

fun iterate :: "yaml \<Rightarrow> yaml list option" where
  "iterate (YList items) = Some items"
| "iterate (YDict d) = Some (map (\<lambda>kv. YStr (fst kv)) d)"
| "iterate (YStr s) = Some (map (\<lambda>c. YStr [c]) s)"
| "iterate _ = None"

text \<open>Lines 100 to 108: the mutation of the loaded configuration.\<close>

definition merge_nav :: "yaml \<Rightarrow> yaml list \<Rightarrow> py_error + yaml" where
  "merge_nav config section =
     (case config of
        YDict d \<Rightarrow>
          (let d1 = (if \<not> dict_has d ''nav'' then dict_set d ''nav'' (YList []) else d)
           in case dict_get d1 ''nav'' of
                None \<Rightarrow> Inl KeyError
              | Some nav \<Rightarrow>
                  (case iterate nav of
                     None \<Rightarrow> Inl TypeError
                   | Some items \<Rightarrow>
                       Inr (YDict (dict_set d1 ''nav''
                             (YList (filter (\<lambda>item. \<not> is_cumind_item item) items
                                     @ [YDict [(''CuMind'', YList section)]]))))))
      | _ \<Rightarrow> Inl TypeError)"

definition update_mkdocs_nav :: "world \<Rightarrow> py_error option \<times> world" where
  "update_mkdocs_nav w =
     (case mkdocs_yml w of
        None \<Rightarrow> (Some FileNotFoundError, w)
      | Some config \<Rightarrow>
          (case cumind_dir w of
             None \<Rightarrow> (Some FileNotFoundError, w)
           | Some files \<Rightarrow>
               (if cumind_files files = [] then (None, print NoFilesForNavigation w)
                else
                  (case merge_nav config (cumind_nav (cumind_files files)) of
                     Inl err \<Rightarrow> (Some err, w)
                   | Inr config' \<Rightarrow>
                       (None, print UpdatedNavigation (w\<lparr>mkdocs_yml := Some config'\<rparr>))))))"

text \<open>The loop of \<open>main\<close> (lines 138 to 141). An exception ends it.\<close>

fun main_loop :: "env \<Rightarrow> headers \<Rightarrow> file_info list \<Rightarrow> world \<Rightarrow> py_error option \<times> world" where
  "main_loop e headers [] w = (None, w)"
| "main_loop e headers (file_info # rest) w =
     (case download_file e file_info headers w of
        (None, w1) \<Rightarrow> main_loop e headers rest w1
      | (Some content, w1) \<Rightarrow>
          (if content \<noteq> ''''
           then (case save_doc_file (name file_info) content w1 of
                   (Some err, w2) \<Rightarrow> (Some err, w2)
                 | (None, w2) \<Rightarrow> main_loop e headers rest w2)
           else main_loop e headers rest w1))"

definition main :: "env \<Rightarrow> world \<Rightarrow> py_error option \<times> world" where
  "main e w0 =
     (let w1 = clean_cumind_docs_dir (print Starting w0);
          headers = auth_headers e;
          (md_files, w2) = fetch_docs_from_github e w1
      in if md_files = [] then (None, print NoMarkdownFiles w2)
         else
           (case main_loop e headers md_files (print (Found (length md_files)) w2) of
              (Some err, w3) \<Rightarrow> (Some err, w3)
            | (None, w3) \<Rightarrow>
                (case update_mkdocs_nav w3 of
                   (Some err, w4) \<Rightarrow> (Some err, w4)
                 | (None, w4) \<Rightarrow> (None, print Completed w4))))"

section \<open>The strings of a document\<close>

text \<open>
  Every string value of a document, in order. In a navigation list these are the
  page paths.
\<close>

fun yaml_strings :: "yaml \<Rightarrow> string list" where
  "yaml_strings (YStr s) = [s]"
| "yaml_strings (YList items) = concat (map yaml_strings items)"
| "yaml_strings (YDict d) = concat (map (\<lambda>kv. yaml_strings (snd kv)) d)"
| "yaml_strings YNull = []"
| "yaml_strings (YBool b) = []"
| "yaml_strings (YInt i) = []"

section \<open>The loop of the run as a function of the store\<close>

text \<open>
  What the loop passes to \<open>save_doc_file\<close> for a listed file: the downloaded text, when
  the download succeeds and the text is not empty.
\<close>

definition saved_content :: "env \<Rightarrow> headers \<Rightarrow> file_info \<Rightarrow> string option" where
  "saved_content e headers file_info =
     (case download_try e file_info headers of
        Inl ex \<Rightarrow> None
      | Inr content \<Rightarrow> if content \<noteq> '''' then Some content else None)"

text \<open>The files of the store after the loop has run over a list, from the files before.\<close>

fun store_all :: "env \<Rightarrow> headers \<Rightarrow> file_info list \<Rightarrow> (string \<times> string) list \<Rightarrow> (string \<times> string) list" where
  "store_all e headers [] files = files"
| "store_all e headers (file_info # rest) files =
     (case saved_content e headers file_info of
        None \<Rightarrow> store_all e headers rest files
      | Some content \<Rightarrow>
          store_all e headers rest
            (dict_set files (name file_info) (with_frontmatter (name file_info) content)))"

section \<open>The words of the specification\<close>

text \<open>
  Title derivation: the file name without its extension, the separators \<open>_\<close> and
  \<open>-\<close> replaced by spaces, title-cased.
\<close>

definition without_extension :: "string \<Rightarrow> string" where
  "without_extension filename =
     (if endswith filename ''.md'' then take (length filename - 3) filename else filename)"

definition spec_title :: "string \<Rightarrow> string" where
  "spec_title filename =
     title (map (\<lambda>c. if c = CHR ''_'' \<or> c = CHR ''-'' then CHR '' '' else c)
              (without_extension filename))"

text \<open>
  The entries the specification says the merge removes: a single-key mapping whose key
  is the section name.
\<close>

fun single_key_section :: "yaml \<Rightarrow> bool" where
  "single_key_section (YDict [(k, v)]) = (k = ''CuMind'')"
| "single_key_section _ = False"

text \<open>Whether a string occurs in another.\<close>

fun occurs_in :: "string \<Rightarrow> string \<Rightarrow> bool" where
  "occurs_in p [] = (p = [])"
| "occurs_in p (c # cs) = (startswith (c # cs) p \<or> occurs_in p cs)"

section \<open>Example inputs\<close>

definition example_world :: world where
  "example_world =
     \<lparr>cumind_dir = Some [(''old.md'', ''stale text'')],
      mkdocs_yml = Some (YDict [(''site_name'', YStr ''Docs''), (''nav'', YList [YStr ''index.md''])]),
      stdout = []\<rparr>"

definition docs_listing :: "file_info list" where
  "docs_listing =
     [\<lparr>name = ''usage.md'', download_url = ''https://raw/usage.md''\<rparr>,
      \<lparr>name = ''logo.png'', download_url = ''https://raw/logo.png''\<rparr>,
      \<lparr>name = ''api_guide.md'', download_url = ''https://raw/api_guide.md''\<rparr>]"

definition env_offline :: env where
  "env_offline =
     \<lparr>GITHUB_TOKEN = None,
      get_json = (\<lambda>url headers. Inl (ConnectionError ''unreachable'')),
      get_text = (\<lambda>url headers. Inl (ConnectionError ''unreachable''))\<rparr>"

definition env_forbidden :: env where
  "env_forbidden =
     \<lparr>GITHUB_TOKEN = Some ''t0'',
      get_json = (\<lambda>url headers. Inr \<lparr>status_code = 403, payload = []\<rparr>),
      get_text = (\<lambda>url headers. Inr \<lparr>status_code = 403, payload = ''''\<rparr>)\<rparr>"

definition env_online :: env where
  "env_online =
     \<lparr>GITHUB_TOKEN = None,
      get_json = (\<lambda>url headers. if url = tree_url then Inr \<lparr>status_code = 200, payload = docs_listing\<rparr>
                                  else Inr \<lparr>status_code = 404, payload = []\<rparr>),
      get_text = (\<lambda>url headers.
         if url = ''https://raw/usage.md'' then Inr \<lparr>status_code = 200, payload = ''Usage''\<rparr>
         else if url = ''https://raw/api_guide.md'' then Inr \<lparr>status_code = 200, payload = ''--- guide''\<rparr>
         else Inr \<lparr>status_code = 404, payload = ''Not Found''\<rparr>)\<rparr>"

definition multi_key_item :: yaml where
  "multi_key_item =
     YDict [(''CuMind'', YList [YDict [(''Old'', YStr ''CuMind/old.md'')]]),
            (''About'', YStr ''about.md'')]"

definition world_multi_key :: world where
  "world_multi_key =
     \<lparr>cumind_dir = Some [(''usage.md'', ''--- usage'')],
      mkdocs_yml = Some (YDict [(''site_name'', YStr ''Docs''),
                                (''nav'', YList [YStr ''index.md'', multi_key_item])]),
      stdout = []\<rparr>"

definition stale_item :: yaml where
  "stale_item = YDict [(''CuMind'', YList [YDict [(''Old'', YStr ''CuMind/old.md'')]])]"

definition stale_config :: "(string \<times> yaml) list" where
  "stale_config =
     [(''site_name'', YStr ''Docs''),
      (''nav'', YList [YStr ''index.md'', stale_item, YDict [(''About'', YStr ''about.md'')]])]"

definition world_stale :: world where
  "world_stale =
     \<lparr>cumind_dir = Some [(''usage.md'', ''--- usage''), (''api_guide.md'', ''--- api'')],
      mkdocs_yml = Some (YDict stale_config),
      stdout = []\<rparr>"

definition env_empty :: env where
  "env_empty =
     \<lparr>GITHUB_TOKEN = None,
      get_json = (\<lambda>url headers. Inr \<lparr>status_code = 200, payload = []\<rparr>),
      get_text = (\<lambda>url headers. Inr \<lparr>status_code = 404, payload = ''Not Found''\<rparr>)\<rparr>"

definition env_one_fails :: env where
  "env_one_fails =
     \<lparr>GITHUB_TOKEN = Some ''t0'',
      get_json = (\<lambda>url headers. Inr \<lparr>status_code = 200, payload = docs_listing\<rparr>),
      get_text = (\<lambda>url headers.
         if url = ''https://raw/usage.md'' then Inr \<lparr>status_code = 200, payload = ''Usage''\<rparr>
         else Inr \<lparr>status_code = 404, payload = ''Not Found''\<rparr>)\<rparr>"

definition env_one_fails_one_empty :: env where
  "env_one_fails_one_empty =
     \<lparr>GITHUB_TOKEN = None,
      get_json = (\<lambda>url headers. Inr \<lparr>status_code = 200, payload = docs_listing\<rparr>),
      get_text = (\<lambda>url headers.
         if url = ''https://raw/usage.md'' then Inr \<lparr>status_code = 200, payload = ''''\<rparr>
         else Inl (Timeout ''timed out''))\<rparr>"

definition env_only_one_fails :: env where
  "env_only_one_fails =
     \<lparr>GITHUB_TOKEN = None,
      get_json = (\<lambda>url headers.
         Inr \<lparr>status_code = 200, payload = [\<lparr>name = ''usage.md'', download_url = ''https://raw/usage.md''\<rparr>]\<rparr>),
      get_text = (\<lambda>url headers. Inl (Timeout ''timed out''))\<rparr>"

definition env_empty_file :: env where
  "env_empty_file =
     \<lparr>GITHUB_TOKEN = None,
      get_json = (\<lambda>url headers. Inr \<lparr>status_code = 200, payload = docs_listing\<rparr>),
      get_text = (\<lambda>url headers.
         if url = ''https://raw/usage.md'' then Inr \<lparr>status_code = 200, payload = ''Usage''\<rparr>
         else if url = ''https://raw/api_guide.md'' then Inr \<lparr>status_code = 200, payload = []\<rparr>
         else Inr \<lparr>status_code = 404, payload = ''Not Found''\<rparr>)\<rparr>"

definition env_only_empty_file :: env where
  "env_only_empty_file =
     \<lparr>GITHUB_TOKEN = None,
      get_json = (\<lambda>url headers.
         Inr \<lparr>status_code = 200, payload = [\<lparr>name = ''usage.md'', download_url = ''https://raw/usage.md''\<rparr>]\<rparr>),
      get_text = (\<lambda>url headers. Inr \<lparr>status_code = 200, payload = []\<rparr>)\<rparr>"

definition world_usage_listed :: world where
  "world_usage_listed =
     \<lparr>cumind_dir = Some [(''usage.md'', ''--- usage'')],
      mkdocs_yml = Some (YDict [(''site_name'', YStr ''Docs''),
                                (''nav'', YList [YStr ''index.md'',
                                   YDict [(''CuMind'', YList [YDict [(''Usage'', YStr ''CuMind/usage.md'')]])]])]),
      stdout = []\<rparr>"

section \<open>Basic facts\<close>

lemma print_fields [simp]:
  "cumind_dir (print n w) = cumind_dir w" "mkdocs_yml (print n w) = mkdocs_yml w"
  by (simp_all add: print_def)


lemma dict_get_dict_set [simp]: "dict_get (dict_set d k v) k = Some v"
  by (induction d k v rule: dict_set.induct) (simp_all add: dict_get_def)

lemma fetch_docs_from_github_fst: "fst (fetch_docs_from_github e w) = fst (fetch_docs_from_github e w')"
  by (simp add: fetch_docs_from_github_def split: sum.splits)

lemma fetch_docs_from_github_files:
  "cumind_dir (snd (fetch_docs_from_github e w)) = cumind_dir w"
  "mkdocs_yml (snd (fetch_docs_from_github e w)) = mkdocs_yml w"
  by (simp_all add: fetch_docs_from_github_def split: sum.splits)

lemma clean_files [simp]:
  "cumind_dir (clean_cumind_docs_dir w) = Some []"
  "mkdocs_yml (clean_cumind_docs_dir w) = mkdocs_yml w"
  by (simp_all add: clean_cumind_docs_dir_def ensure_cumind_docs_dir_def split: option.splits)

lemma dict_get_dict_has: "dict_get d k = Some v \<Longrightarrow> dict_has d k"
  by (auto simp: dict_get_def dict_has_def dest: map_of_SomeD intro: rev_image_eqI)

lemma merge_nav_list:
  assumes "dict_get d ''nav'' = Some (YList items)"
  shows "merge_nav (YDict d) section =
           Inr (YDict (dict_set d ''nav''
                  (YList (filter (\<lambda>item. \<not> is_cumind_item item) items
                          @ [YDict [(''CuMind'', YList section)]]))))"
  using assms dict_get_dict_has [OF assms] by (simp add: merge_nav_def)

lemma update_mkdocs_nav_list:
  assumes "mkdocs_yml w = Some (YDict d)" and "dict_get d ''nav'' = Some (YList items)"
    and "cumind_dir w = Some files" and "cumind_files files \<noteq> []"
  shows "update_mkdocs_nav w =
           (None, print UpdatedNavigation
              (w\<lparr>mkdocs_yml := Some (YDict (dict_set d ''nav''
                  (YList (filter (\<lambda>item. \<not> is_cumind_item item) items
                          @ [YDict [(''CuMind'', YList (cumind_nav (cumind_files files)))]]))))\<rparr>))"
  using assms by (simp add: update_mkdocs_nav_def merge_nav_list)

lemma yaml_strings_dict_set:
  "set (yaml_strings (YDict (dict_set d k v)))
     \<subseteq> set (yaml_strings (YDict (dict_set d k v0))) \<union> set (yaml_strings v)"
  by (induction d k v rule: dict_set.induct) auto

lemma yaml_strings_dict_set_value:
  "set (yaml_strings v) \<subseteq> set (yaml_strings (YDict (dict_set d k v)))"
  by (induction d k v rule: dict_set.induct) auto

lemma yaml_strings_cumind_nav:
  "yaml_strings (YList (cumind_nav fs)) = map (\<lambda>file. ''CuMind/'' @ file) fs"
  by (induction fs) (simp_all add: cumind_nav_def)

lemma is_cumind_item_section [simp]: "is_cumind_item (YDict [(''CuMind'', v)])"
  by (simp add: dict_has_def)

lemma main_loop_store:
  "cumind_dir w = Some files \<Longrightarrow>
     fst (main_loop e h fs w) = None
     \<and> cumind_dir (snd (main_loop e h fs w)) = Some (store_all e h fs files)
     \<and> mkdocs_yml (snd (main_loop e h fs w)) = mkdocs_yml w"
proof (induction fs arbitrary: w files)
  case Nil
  then show ?case by simp
next
  case (Cons f fs)
  show ?case
  proof (cases "download_try e f h")
    case (Inl ex)
    with Cons.IH [of "print (ErrorDownloading (name f) ex) w" files] Cons.prems
    show ?thesis by (simp add: download_file_def saved_content_def)
  next
    case (Inr content)
    show ?thesis
    proof (cases "content = ''''")
      case True
      with Inr Cons.IH [of w files] Cons.prems
      show ?thesis by (simp add: download_file_def saved_content_def)
    next
      case False
      let ?files' = "dict_set files (name f) (with_frontmatter (name f) content)"
      let ?w' = "print (Saved (name f)) (w\<lparr>cumind_dir := Some ?files'\<rparr>)"
      have "cumind_dir ?w' = Some ?files'" by simp
      from Cons.IH [OF this] False Inr Cons.prems
      show ?thesis by (simp add: download_file_def saved_content_def save_doc_file_def)
    qed
  qed
qed

lemma update_mkdocs_nav_cumind_dir: "cumind_dir (snd (update_mkdocs_nav w)) = cumind_dir w"
  by (simp add: update_mkdocs_nav_def split: option.splits sum.splits)

lemma update_mkdocs_nav_cong:
  assumes "cumind_dir w = cumind_dir w'" and "mkdocs_yml w = mkdocs_yml w'"
  shows "fst (update_mkdocs_nav w) = fst (update_mkdocs_nav w')
         \<and> mkdocs_yml (snd (update_mkdocs_nav w)) = mkdocs_yml (snd (update_mkdocs_nav w'))"
  using assms by (simp add: update_mkdocs_nav_def split: option.splits sum.splits)

lemma main_cumind_dir:
  "cumind_dir (snd (main e w0))
     = Some (store_all e (auth_headers e) (fst (fetch_docs_from_github e w)) [])"
proof -
  let ?w1 = "clean_cumind_docs_dir (print Starting w0)"
  obtain md w2 where f: "fetch_docs_from_github e ?w1 = (md, w2)"
    by (cases "fetch_docs_from_github e ?w1")
  have md: "fst (fetch_docs_from_github e w) = md"
    using f fetch_docs_from_github_fst [of e w ?w1] by simp
  have w2: "cumind_dir w2 = Some []"
    using f fetch_docs_from_github_files(1) [of e ?w1] by simp
  show ?thesis
  proof (cases "md = []")
    case True
    with f w2 md show ?thesis by (simp add: main_def)
  next
    case False
    let ?w2' = "print (Found (length md)) w2"
    have "cumind_dir ?w2' = Some []" using w2 by simp
    from main_loop_store [OF this, of e "auth_headers e" md]
    obtain w3 where l: "main_loop e (auth_headers e) md ?w2' = (None, w3)"
      and s: "cumind_dir w3 = Some (store_all e (auth_headers e) md [])"
      by (cases "main_loop e (auth_headers e) md ?w2'") auto
    have "cumind_dir (snd (main e w0)) = cumind_dir (snd (update_mkdocs_nav w3))"
      using f False l by (simp add: main_def split: prod.splits option.splits)
    with s md show ?thesis by (simp add: update_mkdocs_nav_cumind_dir)
  qed
qed

lemma main_nonempty:
  assumes "fst (fetch_docs_from_github e w) \<noteq> []"
    and "cumind_dir w3 = Some (store_all e (auth_headers e) (fst (fetch_docs_from_github e w)) [])"
    and "mkdocs_yml w3 = mkdocs_yml w0"
  shows "fst (main e w0) = fst (update_mkdocs_nav w3)
         \<and> mkdocs_yml (snd (main e w0)) = mkdocs_yml (snd (update_mkdocs_nav w3))"
proof -
  let ?w1 = "clean_cumind_docs_dir (print Starting w0)"
  obtain md w2 where f: "fetch_docs_from_github e ?w1 = (md, w2)"
    by (cases "fetch_docs_from_github e ?w1")
  have md: "fst (fetch_docs_from_github e w) = md"
    using f fetch_docs_from_github_fst [of e w ?w1] by simp
  have w2: "cumind_dir w2 = Some []" "mkdocs_yml w2 = mkdocs_yml w0"
    using f fetch_docs_from_github_files [of e ?w1] by simp_all
  let ?w2' = "print (Found (length md)) w2"
  have "cumind_dir ?w2' = Some []" using w2 by simp
  from main_loop_store [OF this, of e "auth_headers e" md]
  obtain w3' where l: "main_loop e (auth_headers e) md ?w2' = (None, w3')"
    and s: "cumind_dir w3' = Some (store_all e (auth_headers e) md [])"
    and m: "mkdocs_yml w3' = mkdocs_yml w0"
    using w2 by (cases "main_loop e (auth_headers e) md ?w2'") auto
  have "fst (main e w0) = fst (update_mkdocs_nav w3')
        \<and> mkdocs_yml (snd (main e w0)) = mkdocs_yml (snd (update_mkdocs_nav w3'))"
    using f assms(1) md l by (simp add: main_def split: prod.splits option.splits)
  moreover have "cumind_dir w3' = cumind_dir w3" "mkdocs_yml w3' = mkdocs_yml w3"
    using s m assms(2,3) md by simp_all
  ultimately show ?thesis
    using update_mkdocs_nav_cong [of w3' w3] by simp
qed

lemma dict_set_dict_set [simp]: "dict_set (dict_set d k v) k v' = dict_set d k v'"
  by (induction d k v rule: dict_set.induct) simp_all

lemma dict_has_dict_set [simp]: "dict_has (dict_set d k v) k"
  by (induction d k v rule: dict_set.induct) (simp_all add: dict_has_def)

lemma dict_has_iff: "dict_has d k \<longleftrightarrow> dict_get d k \<noteq> None"
  by (simp add: dict_has_def dict_get_def map_of_eq_None_iff)

lemma merge_nav_absent:
  assumes "dict_get d ''nav'' = None"
  shows "merge_nav (YDict d)  sect
           = Inr (YDict (dict_set d ''nav'' (YList [YDict [(''CuMind'', YList sect)]])))"
  using assms by (simp add: merge_nav_def dict_has_iff)

lemma merge_nav_again:
  "merge_nav (YDict (dict_set d ''nav''
       (YList (filter (\<lambda>item. \<not> is_cumind_item item) items @ [YDict [(''CuMind'', YList sect)]]))))
      sect
   = Inr (YDict (dict_set d ''nav''
       (YList (filter (\<lambda>item. \<not> is_cumind_item item) items @ [YDict [(''CuMind'', YList sect)]]))))"
  using merge_nav_list [of "dict_set d ''nav''
       (YList (filter (\<lambda>item. \<not> is_cumind_item item) items @ [YDict [(''CuMind'', YList sect)]]))"
       "filter (\<lambda>item. \<not> is_cumind_item item) items @ [YDict [(''CuMind'', YList sect)]]" sect]
  by (simp add: dict_has_def)

lemma merge_nav_wellformed:
  assumes "dict_get d ''nav'' = None \<or> dict_get d ''nav'' = Some (YList items)"
  shows "\<exists>kept. merge_nav (YDict d)  sect
           = Inr (YDict (dict_set d ''nav''
               (YList (filter (\<lambda>item. \<not> is_cumind_item item) kept @ [YDict [(''CuMind'', YList sect)]]))))"
proof (cases "dict_get d ''nav''")
  case None
  from merge_nav_absent [OF this, of sect] show ?thesis
    by (intro exI [of _ "[]"]) simp
next
  case (Some v)
  with assms have "dict_get d ''nav'' = Some (YList items)" by simp
  from merge_nav_list [OF this, of sect] show ?thesis
    by (intro exI [of _ items])
qed

lemma set_fst_dict_set: "fst ` set (dict_set d k v) = insert k (fst ` set d)"
  by (induction d k v rule: dict_set.induct) auto

lemma store_all_keys:
  "set (map fst (store_all e h fs files))
     = set (map fst files) \<union> {name f |f. f \<in> set fs \<and> saved_content e h f \<noteq> None}"
  by (induction fs arbitrary: files) (auto simp: set_fst_dict_set split: option.splits)

lemma fetch_docs_try_fst:
  "fetch_docs_try e = Inr md_files \<Longrightarrow> fst (fetch_docs_from_github e w) = md_files"
  by (simp add: fetch_docs_from_github_def)

lemma fetch_docs_try_md:
  "fetch_docs_try e = Inr md_files \<Longrightarrow> f \<in> set md_files \<Longrightarrow> endswith (name f) ''.md''"
  by (auto simp: fetch_docs_try_def split: sum.splits)

lemma cumind_files_nonempty:
  "n \<in> set (map fst files) \<Longrightarrow> endswith n ''.md'' \<Longrightarrow> cumind_files files \<noteq> []"
proof -
  assume "n \<in> set (map fst files)" and "endswith n ''.md''"
  then have "n \<in> set (cumind_files files)"
    by (simp add: cumind_files_def)
  then show ?thesis by auto
qed

lemma update_mkdocs_nav_ok:
  assumes "cumind_dir w = Some files" and "cumind_files files \<noteq> []"
    and "mkdocs_yml w = Some config"
    and "merge_nav config (cumind_nav (cumind_files files)) = Inr config'"
  shows "fst (update_mkdocs_nav w) = None \<and> mkdocs_yml (snd (update_mkdocs_nav w)) = Some config'"
  using assms by (simp add: update_mkdocs_nav_def)

lemma saved_content_Some:
  "download_try e f h = Inr content \<Longrightarrow> content \<noteq> '''' \<Longrightarrow> saved_content e h f = Some content"
  by (simp add: saved_content_def)

lemma dict_set_new: "k \<notin> fst ` set d \<Longrightarrow> dict_set d k v = d @ [(k, v)]"
  by (induction d k v rule: dict_set.induct) auto

text \<open>With distinct names that are not in the store yet, the loop appends one file for each listed file it keeps.\<close>

lemma store_all_distinct:
  assumes "distinct (map name fs)" and "name ` set fs \<inter> fst ` set files = {}"
  shows "store_all e h fs files
           = files @ List.map_filter
               (\<lambda>f. map_option (\<lambda>content. (name f, with_frontmatter (name f) content))
                      (saved_content e h f)) fs"
  using assms
proof (induction fs arbitrary: files)
  case Nil
  then show ?case by (simp add: List.map_filter_simps)
next
  case (Cons f fs)
  show ?case
  proof (cases "saved_content e h f")
    case None
    with Cons.IH [of files] Cons.prems show ?thesis
      by (simp add: List.map_filter_simps)
  next
    case (Some content)
    let ?files' = "files @ [(name f, with_frontmatter (name f) content)]"
    have new: "dict_set files (name f) (with_frontmatter (name f) content) = ?files'"
      using Cons.prems by (intro dict_set_new) auto
    have "name ` set fs \<inter> fst ` set ?files' = {}"
      using Cons.prems by auto
    with Cons.IH [of ?files'] Cons.prems Some new show ?thesis
      by (simp add: List.map_filter_simps)
  qed
qed

lemma map_filter_one_failed:
  assumes "g failed = None"
    and "\<forall>f \<in> set fs. f \<noteq> failed \<longrightarrow> g f = Some (k f)"
  shows "List.map_filter g fs = map k (filter (\<lambda>f. f \<noteq> failed) fs)"
  using assms by (induction fs) (auto simp: List.map_filter_simps)

lemma length_filter_neq:
  "distinct xs \<Longrightarrow> x \<in> set xs \<Longrightarrow> length (filter (\<lambda>y. y \<noteq> x) xs) = length xs - 1"
proof (induction xs)
  case Nil
  then show ?case by simp
next
  case (Cons a xs)
  show ?case
  proof (cases "a = x")
    case True
    with Cons.prems have "filter (\<lambda>y. y \<noteq> x) xs = xs"
      by (auto intro: filter_True)
    with True show ?thesis by simp
  next
    case False
    with Cons have "length (filter (\<lambda>y. y \<noteq> x) xs) = length xs - 1" and "xs \<noteq> []"
      by auto
    with False show ?thesis by (cases xs) auto
  qed
qed

lemma main_no_files:
  assumes "fst (fetch_docs_from_github e w) = []"
  shows "fst (main e w0) = None \<and> mkdocs_yml (snd (main e w0)) = mkdocs_yml w0"
proof -
  let ?w1 = "clean_cumind_docs_dir (print Starting w0)"
  obtain md_files w2 where f: "fetch_docs_from_github e ?w1 = (md_files, w2)"
    by (cases "fetch_docs_from_github e ?w1")
  have "md_files = []"
    using assms f fetch_docs_from_github_fst [of e ?w1 w] by simp
  moreover have "mkdocs_yml w2 = mkdocs_yml w0"
    using f fetch_docs_from_github_files(2) [of e ?w1] by simp
  ultimately show ?thesis
    using f by (simp add: main_def)
qed

lemma store_all_cong:
  "\<forall>f \<in> set fs. saved_content e' h' f = saved_content e h f \<Longrightarrow>
     store_all e' h' fs files = store_all e h fs files"
  by (induction fs arbitrary: files) (simp_all split: option.splits)

lemma main_cong:
  assumes "fst (fetch_docs_from_github e' w) = fst (fetch_docs_from_github e w)"
    and "\<forall>f \<in> set (fst (fetch_docs_from_github e w)).
           saved_content e' (auth_headers e') f = saved_content e (auth_headers e) f"
  shows "fst (main e' w0) = fst (main e w0)
         \<and> cumind_dir (snd (main e' w0)) = cumind_dir (snd (main e w0))
         \<and> mkdocs_yml (snd (main e' w0)) = mkdocs_yml (snd (main e w0))"
proof -
  let ?md = "fst (fetch_docs_from_github e w)"
  let ?S = "store_all e (auth_headers e) ?md []"
  have S: "store_all e' (auth_headers e') ?md [] = ?S"
    using assms(2) by (rule store_all_cong)
  have store: "cumind_dir (snd (main e' w0)) = cumind_dir (snd (main e w0))"
    using main_cumind_dir [of e' w0 w] main_cumind_dir [of e w0 w] assms(1) S by simp
  show ?thesis
  proof (cases "?md = []")
    case True
    with main_no_files [of e w w0] main_no_files [of e' w w0] assms(1) store
    show ?thesis by simp
  next
    case False
    let ?W = "\<lparr>cumind_dir = Some ?S, mkdocs_yml = mkdocs_yml w0, stdout = []\<rparr>"
    from False main_nonempty [of e w ?W w0] main_nonempty [of e' w ?W w0] assms(1) S store
    show ?thesis by simp
  qed
qed

lemma cumind_files_subset: "set (cumind_files files) \<subseteq> fst ` set files"
  by (auto simp: cumind_files_def)

lemma not_startswith_md_append:
  assumes "s \<noteq> []" and "\<not> startswith s ''.md''"
  shows "\<not> startswith (s @ ''.md'') ''.md''"
proof (cases s)
  case Nil
  with assms(1) show ?thesis by simp
next
  case s: (Cons a s1)
  show ?thesis
  proof (cases s1)
    case Nil
    with s show ?thesis by (simp add: startswith_def)
  next
    case s1: (Cons b s2)
    show ?thesis
    proof (cases s2)
      case Nil
      with s s1 show ?thesis by (simp add: startswith_def)
    next
      case (Cons c s3)
      with s s1 assms(2) show ?thesis by (simp add: startswith_def)
    qed
  qed
qed

lemma replace_md_stem:
  "\<not> occurs_in ''.md'' stem \<Longrightarrow> replace ''.md'' '''' (stem @ ''.md'') = stem"
proof (induction stem)
  case Nil
  then show ?case by (simp add: startswith_def)
next
  case (Cons c cs)
  then have "\<not> startswith ((c # cs) @ ''.md'') ''.md''"
    by (intro not_startswith_md_append) simp_all
  with Cons show ?case by simp
qed

lemma replace_char: "replace [a] [b] s = map (\<lambda>c. if c = a then b else c) s"
  by (induction s) (simp_all add: startswith_def)

lemma without_extension_md: "without_extension (stem @ ''.md'') = stem"
  by (simp add: without_extension_def endswith_def)

text \<open>
  On a name whose only occurrence of \<open>.md\<close> is its extension, the derivation of the code
  is the derivation of the specification.
\<close>

lemma derive_title_agrees:
  assumes "\<not> occurs_in ''.md'' stem"
  shows "derive_title (stem @ ''.md'') = spec_title (stem @ ''.md'')"
proof -
  have "replace ''-'' '' '' (replace ''_'' '' '' stem)
          = map (\<lambda>c. if c = CHR ''_'' \<or> c = CHR ''-'' then CHR '' '' else c) stem"
    by (simp add: replace_char)
  moreover have "replace ''.md'' '''' (stem @ ''.md'') = stem"
    using assms by (rule replace_md_stem)
  ultimately show ?thesis
    unfolding derive_title_def spec_title_def without_extension_md by simp
qed

section \<open>The local store\<close>

text \<open>
  C9. Resetting the store succeeds from every state, whether the directory exists or
  not: the model has no failing branch. Afterwards the directory exists and is empty,
  the configuration file is untouched, and a second reset changes nothing.
\<close>

theorem clean_cumind_docs_dir_total_idempotent:
  "cumind_dir (clean_cumind_docs_dir w) = Some []
   \<and> mkdocs_yml (clean_cumind_docs_dir w) = mkdocs_yml w
   \<and> clean_cumind_docs_dir (clean_cumind_docs_dir w) = clean_cumind_docs_dir w"
  by (simp add: clean_cumind_docs_dir_def ensure_cumind_docs_dir_def split: option.splits)



section \<open>Title derivation\<close>

text \<open>
  C4. The derivation removes every occurrence of \<open>.md\<close>, not only the extension: on
  \<open>notes.mdx.md\<close> it yields \<open>Notesx\<close>, where the file name without its extension,
  separators replaced and title-cased, is \<open>Notes.Mdx\<close>.
\<close>

theorem derive_title_removes_every_md:
  "derive_title ''notes.mdx.md'' = ''Notesx'' \<and> spec_title ''notes.mdx.md'' = ''Notes.Mdx''"
  by code_simp

text \<open>The example of the specification holds.\<close>

lemma derive_title_my_file_name: "derive_title ''my_file-name.md'' = ''My File Name''"
  by code_simp

section \<open>The remote lister\<close>

text \<open>
  C7. \<open>fetch_docs_from_github\<close> never raises. When the request fails in transport, or
  the answer has an error status (400 to 599), it prints the failure and returns the
  empty list; otherwise it returns exactly the listed entries whose name ends with
  \<open>.md\<close>, in their order.
\<close>

theorem fetch_docs_from_github_absorbs_errors:
  "(get_json e tree_url (auth_headers e) = Inl ex
      \<longrightarrow> fetch_docs_from_github e w = ([], print (ErrorFetchingList ex) w))
   \<and> (get_json e tree_url (auth_headers e) = Inr r \<and> 400 \<le> status_code r \<and> status_code r < 600
      \<longrightarrow> fetch_docs_from_github e w = ([], print (ErrorFetchingList (HTTPError (status_code r))) w))
   \<and> (get_json e tree_url (auth_headers e) = Inr r \<and> \<not> (400 \<le> status_code r \<and> status_code r < 600)
      \<longrightarrow> fetch_docs_from_github e w = (filter (\<lambda>f. endswith (name f) ''.md'') (payload r), w))"
  by (simp add: fetch_docs_from_github_def fetch_docs_try_def raise_for_status_def)

theorem fetch_docs_from_github_absorbs_errors_witness:
  "fetch_docs_from_github env_offline example_world
     = ([], print (ErrorFetchingList (ConnectionError ''unreachable'')) example_world)
   \<and> fetch_docs_from_github env_forbidden example_world
     = ([], print (ErrorFetchingList (HTTPError 403)) example_world)
   \<and> fetch_docs_from_github env_online example_world
     = ([\<lparr>name = ''usage.md'', download_url = ''https://raw/usage.md''\<rparr>,
         \<lparr>name = ''api_guide.md'', download_url = ''https://raw/api_guide.md''\<rparr>], example_world)"
proof -
  have a: "get_json env_offline tree_url (auth_headers env_offline) = Inl (ConnectionError ''unreachable'')"
    by (simp add: env_offline_def)
  have b: "get_json env_forbidden tree_url (auth_headers env_forbidden) = Inr \<lparr>status_code = 403, payload = []\<rparr>"
    by (simp add: env_forbidden_def)
  have c: "get_json env_online tree_url (auth_headers env_online) = Inr \<lparr>status_code = 200, payload = docs_listing\<rparr>"
    by (simp add: env_online_def)
  have f: "filter (\<lambda>f. endswith (name f) ''.md'') docs_listing
           = [\<lparr>name = ''usage.md'', download_url = ''https://raw/usage.md''\<rparr>,
              \<lparr>name = ''api_guide.md'', download_url = ''https://raw/api_guide.md''\<rparr>]"
    by (simp add: docs_listing_def endswith_def)
  from fetch_docs_from_github_absorbs_errors
         [of env_offline "ConnectionError ''unreachable''" example_world]
       fetch_docs_from_github_absorbs_errors
         [of env_forbidden _ example_world "\<lparr>status_code = 403, payload = []\<rparr>"]
       fetch_docs_from_github_absorbs_errors
         [of env_online _ example_world "\<lparr>status_code = 200, payload = docs_listing\<rparr>"]
       a b c f
  show ?thesis by simp
qed

section \<open>The run\<close>

text \<open>
  C5. When the lister returns nothing, the run ends without an exception, the store
  is left existing and empty, and the configuration file is what it was before.
\<close>

theorem main_empty_listing:
  assumes "fst (fetch_docs_from_github e w) = []"
  shows "fst (main e w0) = None
         \<and> cumind_dir (snd (main e w0)) = Some []
         \<and> mkdocs_yml (snd (main e w0)) = mkdocs_yml w0"
proof -
  let ?w1 = "clean_cumind_docs_dir (print Starting w0)"
  obtain md_files w2 where f: "fetch_docs_from_github e ?w1 = (md_files, w2)"
    by (cases "fetch_docs_from_github e ?w1")
  have "md_files = []"
    using assms f fetch_docs_from_github_fst [of e ?w1 w] by simp
  moreover have "cumind_dir w2 = Some []" "mkdocs_yml w2 = mkdocs_yml w0"
    using f fetch_docs_from_github_files [of e ?w1] by simp_all
  ultimately show ?thesis
    using f by (simp add: main_def)
qed

theorem main_empty_listing_witness:
  "fst (fetch_docs_from_github env_offline example_world) = []
   \<and> fst (main env_offline example_world) = None
   \<and> cumind_dir (snd (main env_offline example_world)) = Some []
   \<and> mkdocs_yml (snd (main env_offline example_world))
       = Some (YDict [(''site_name'', YStr ''Docs''), (''nav'', YList [YStr ''index.md''])])"
proof -
  have h: "fst (fetch_docs_from_github env_offline example_world) = []"
    by (simp add: fetch_docs_from_github_def fetch_docs_try_def env_offline_def)
  have m: "mkdocs_yml example_world
       = Some (YDict [(''site_name'', YStr ''Docs''), (''nav'', YList [YStr ''index.md''])])"
    by (simp add: example_world_def)
  from main_empty_listing [OF h, of example_world] h m show ?thesis by simp
qed

section \<open>The navigation merge\<close>

text \<open>
  C2, as the code has it. When at least one document is stored and the configuration
  is a mapping whose \<open>nav\<close> is a list, the merge removes exactly the top-level entries
  that are mappings containing the key \<open>CuMind\<close>, whether or not they have other keys,
  keeps every other entry in place and in order, and appends the new section entry.
\<close>

theorem update_mkdocs_nav_removes_cumind_mappings:
  assumes "mkdocs_yml w = Some (YDict d)" and "dict_get d ''nav'' = Some (YList items)"
    and "cumind_dir w = Some files" and "cumind_files files \<noteq> []"
  shows "\<exists>w' d'. update_mkdocs_nav w = (None, w')
           \<and> mkdocs_yml w' = Some (YDict d')
           \<and> dict_get d' ''nav'' =
               Some (YList (filter (\<lambda>item. \<not> is_cumind_item item) items
                            @ [YDict [(''CuMind'', YList (cumind_nav (cumind_files files)))]]))"
  using update_mkdocs_nav_list [OF assms] by simp

theorem update_mkdocs_nav_removes_cumind_mappings_witness:
  "mkdocs_yml world_multi_key
     = Some (YDict [(''site_name'', YStr ''Docs''), (''nav'', YList [YStr ''index.md'', multi_key_item])])
   \<and> dict_get [(''site_name'', YStr ''Docs''), (''nav'', YList [YStr ''index.md'', multi_key_item])] ''nav''
     = Some (YList [YStr ''index.md'', multi_key_item])
   \<and> cumind_dir world_multi_key = Some [(''usage.md'', ''--- usage'')]
   \<and> cumind_files [(''usage.md'', ''--- usage'')] \<noteq> []
   \<and> (\<exists>w' d'. update_mkdocs_nav world_multi_key = (None, w')
          \<and> mkdocs_yml w' = Some (YDict d')
          \<and> dict_get d' ''nav'' =
              Some (YList [YStr ''index.md'',
                           YDict [(''CuMind'', YList [YDict [(''Usage'', YStr ''CuMind/usage.md'')]])]]))"
proof -
  have a: "mkdocs_yml world_multi_key
     = Some (YDict [(''site_name'', YStr ''Docs''), (''nav'', YList [YStr ''index.md'', multi_key_item])])"
    by (simp add: world_multi_key_def)
  have b: "dict_get [(''site_name'', YStr ''Docs''), (''nav'', YList [YStr ''index.md'', multi_key_item])] ''nav''
     = Some (YList [YStr ''index.md'', multi_key_item])"
    by (simp add: dict_get_def)
  have c: "cumind_dir world_multi_key = Some [(''usage.md'', ''--- usage'')]"
    by (simp add: world_multi_key_def)
  have f: "cumind_files [(''usage.md'', ''--- usage'')] = [''usage.md'']"
    by code_simp
  then have d: "cumind_files [(''usage.md'', ''--- usage'')] \<noteq> []"
    by simp
  have n: "cumind_nav [''usage.md''] = [YDict [(''Usage'', YStr ''CuMind/usage.md'')]]"
    by code_simp
  have k: "is_cumind_item multi_key_item"
    by (simp add: multi_key_item_def dict_has_def)
  from update_mkdocs_nav_removes_cumind_mappings [OF a b c d] a b c d
  show ?thesis by (simp add: f n k)
qed

text \<open>
  C2 as stated fails: an entry with the keys \<open>CuMind\<close> and \<open>About\<close> is not a single-key
  mapping, and the merge removes it.
\<close>

theorem update_mkdocs_nav_multi_key_counterexample:
  "\<not> single_key_section multi_key_item
   \<and> mkdocs_yml world_multi_key
       = Some (YDict [(''site_name'', YStr ''Docs''),
                      (''nav'', YList [YStr ''index.md'', multi_key_item])])
   \<and> mkdocs_yml (snd (update_mkdocs_nav world_multi_key))
       = Some (YDict [(''site_name'', YStr ''Docs''),
                      (''nav'', YList [YStr ''index.md'',
                         YDict [(''CuMind'', YList [YDict [(''Usage'', YStr ''CuMind/usage.md'')]])]])])"
  by code_simp

text \<open>
  C8. Merging into a configuration whose \<open>nav\<close> list holds a stale section entry leaves
  exactly one section entry, the freshly computed one, and the stale entry is gone.
  A path of the stale entry that is not the path of a stored file, and that occurs
  nowhere in the configuration outside the section entries, occurs nowhere in the
  resulting configuration.
\<close>

theorem update_mkdocs_nav_replaces_stale_section:
  assumes "mkdocs_yml w = Some (YDict d)" and "dict_get d ''nav'' = Some (YList items)"
    and "cumind_dir w = Some files" and "cumind_files files \<noteq> []"
    and "stale \<in> set items" and "is_cumind_item stale"
    and "p \<in> set (yaml_strings stale)"
    and "p \<notin> set (map (\<lambda>file. ''CuMind/'' @ file) (cumind_files files))"
    and "p \<notin> set (yaml_strings (YDict (dict_set d ''nav''
                      (YList (filter (\<lambda>item. \<not> is_cumind_item item) items)))))"
  shows "\<exists>w' d' items'. update_mkdocs_nav w = (None, w')
           \<and> mkdocs_yml w' = Some (YDict d')
           \<and> dict_get d' ''nav'' = Some (YList items')
           \<and> filter is_cumind_item items'
               = [YDict [(''CuMind'', YList (cumind_nav (cumind_files files)))]]
           \<and> stale \<notin> set items'
           \<and> p \<notin> set (yaml_strings (YDict d'))"
proof -
  let ?fresh = "YDict [(''CuMind'', YList (cumind_nav (cumind_files files)))]"
  let ?kept = "filter (\<lambda>item. \<not> is_cumind_item item) items"
  let ?items' = "?kept @ [?fresh]"
  let ?d' = "dict_set d ''nav'' (YList ?items')"
  have fresh_strings: "yaml_strings ?fresh = map (\<lambda>file. ''CuMind/'' @ file) (cumind_files files)"
    using yaml_strings_cumind_nav [of "cumind_files files"] by simp
  have run: "update_mkdocs_nav w = (None, print UpdatedNavigation (w\<lparr>mkdocs_yml := Some (YDict ?d')\<rparr>))"
    by (rule update_mkdocs_nav_list [OF assms(1-4)])
  have only: "filter is_cumind_item ?items' = [?fresh]"
    by (simp add: dict_has_def)
  have "stale \<noteq> ?fresh"
    using assms(7,8) fresh_strings by auto
  with assms(6) have gone: "stale \<notin> set ?items'"
    by simp
  let ?base = "YDict (dict_set d ''nav'' (YList ?kept))"
  have A: "set (yaml_strings (YDict ?d'))
             \<subseteq> set (yaml_strings ?base) \<union> set (yaml_strings (YList ?items'))"
    by (rule yaml_strings_dict_set)
  have B: "set (yaml_strings (YList ?items'))
             = set (yaml_strings (YList ?kept)) \<union> set (yaml_strings ?fresh)"
    by simp
  have C: "set (yaml_strings (YList ?kept)) \<subseteq> set (yaml_strings ?base)"
    by (rule yaml_strings_dict_set_value)
  have D: "p \<notin> set (yaml_strings ?fresh)"
    unfolding fresh_strings by (rule assms(8))
  have E: "p \<notin> set (yaml_strings ?base)"
    by (rule assms(9))
  from A B C D E have absent: "p \<notin> set (yaml_strings (YDict ?d'))"
    by blast
  from run only gone absent show ?thesis
    by (intro exI [of _ "print UpdatedNavigation (w\<lparr>mkdocs_yml := Some (YDict ?d')\<rparr>)"]
              exI [of _ ?d'] exI [of _ ?items']) simp
qed

theorem update_mkdocs_nav_replaces_stale_section_witness:
  "mkdocs_yml world_stale = Some (YDict stale_config)
   \<and> dict_get stale_config ''nav''
       = Some (YList [YStr ''index.md'', stale_item, YDict [(''About'', YStr ''about.md'')]])
   \<and> cumind_dir world_stale = Some [(''usage.md'', ''--- usage''), (''api_guide.md'', ''--- api'')]
   \<and> stale_item \<in> set [YStr ''index.md'', stale_item, YDict [(''About'', YStr ''about.md'')]]
   \<and> is_cumind_item stale_item
   \<and> ''CuMind/old.md'' \<in> set (yaml_strings stale_item)
   \<and> (\<exists>w' d' items'. update_mkdocs_nav world_stale = (None, w')
          \<and> mkdocs_yml w' = Some (YDict d')
          \<and> dict_get d' ''nav'' = Some (YList items')
          \<and> filter is_cumind_item items'
              = [YDict [(''CuMind'', YList [YDict [(''Api Guide'', YStr ''CuMind/api_guide.md'')],
                                            YDict [(''Usage'', YStr ''CuMind/usage.md'')]])]]
          \<and> stale_item \<notin> set items'
          \<and> ''CuMind/old.md'' \<notin> set (yaml_strings (YDict d')))"
proof -
  let ?files = "[(''usage.md'', ''--- usage''), (''api_guide.md'', ''--- api'')]"
  let ?items = "[YStr ''index.md'', stale_item, YDict [(''About'', YStr ''about.md'')]]"
  have a: "mkdocs_yml world_stale = Some (YDict stale_config)"
    by (simp add: world_stale_def)
  have b: "dict_get stale_config ''nav'' = Some (YList ?items)"
    by (simp add: dict_get_def stale_config_def)
  have c: "cumind_dir world_stale = Some ?files"
    by (simp add: world_stale_def)
  have fs: "cumind_files ?files = [''api_guide.md'', ''usage.md'']"
    by code_simp
  have d: "cumind_files ?files \<noteq> []"
    by (simp add: fs)
  have e: "stale_item \<in> set ?items"
    by simp
  have f: "is_cumind_item stale_item"
    by (simp add: stale_item_def dict_has_def)
  have g: "''CuMind/old.md'' \<in> set (yaml_strings stale_item)"
    by (simp add: stale_item_def)
  have h: "''CuMind/old.md'' \<notin> set (map (\<lambda>file. ''CuMind/'' @ file) (cumind_files ?files))"
    by (simp add: fs)
  have i: "''CuMind/old.md'' \<notin> set (yaml_strings (YDict (dict_set stale_config ''nav''
              (YList (filter (\<lambda>item. \<not> is_cumind_item item) ?items)))))"
    by (simp add: stale_config_def f dict_has_def)
  have n: "cumind_nav [''api_guide.md'', ''usage.md'']
           = [YDict [(''Api Guide'', YStr ''CuMind/api_guide.md'')],
              YDict [(''Usage'', YStr ''CuMind/usage.md'')]]"
    by code_simp
  from update_mkdocs_nav_replaces_stale_section [OF a b c d e f g h i] a b c e f g
  show ?thesis by (simp add: fs n)
qed

text \<open>
  C1, as the code has it. Two runs against the same environment leave the same files
  in the store as one run. When the lister returns at least one file whose download
  succeeds with text that is not empty, and the configuration is a mapping whose \<open>nav\<close>
  is absent or a list, both runs end without an exception, the second run leaves the
  configuration as the first left it, and its \<open>nav\<close> list has exactly one entry with the
  key \<open>CuMind\<close>.
\<close>

theorem main_twice:
  "cumind_dir (snd (main e (snd (main e w)))) = cumind_dir (snd (main e w))
   \<and> (fetch_docs_try e = Inr md_files \<and> f \<in> set md_files
        \<and> download_try e f (auth_headers e) = Inr content \<and> content \<noteq> ''''
        \<and> mkdocs_yml w = Some (YDict d)
        \<and> (dict_get d ''nav'' = None \<or> dict_get d ''nav'' = Some (YList items))
      \<longrightarrow> fst (main e w) = None
          \<and> fst (main e (snd (main e w))) = None
          \<and> mkdocs_yml (snd (main e (snd (main e w)))) = mkdocs_yml (snd (main e w))
          \<and> (\<exists>d' items'. mkdocs_yml (snd (main e (snd (main e w)))) = Some (YDict d')
                \<and> dict_get d' ''nav'' = Some (YList items')
                \<and> length (filter is_cumind_item items') = 1))"
proof (intro conjI impI)
  show "cumind_dir (snd (main e (snd (main e w)))) = cumind_dir (snd (main e w))"
    using main_cumind_dir [of e "snd (main e w)" w] main_cumind_dir [of e w w] by simp
next
  assume a: "fetch_docs_try e = Inr md_files \<and> f \<in> set md_files
        \<and> download_try e f (auth_headers e) = Inr content \<and> content \<noteq> ''''
        \<and> mkdocs_yml w = Some (YDict d)
        \<and> (dict_get d ''nav'' = None \<or> dict_get d ''nav'' = Some (YList items))"
  let ?h = "auth_headers e"
  let ?S = "store_all e ?h md_files []"
  let ?sect = "cumind_nav (cumind_files ?S)"
  let ?w1 = "snd (main e w)"
  have md: "fst (fetch_docs_from_github e w) = md_files" "md_files \<noteq> []"
    using a fetch_docs_try_fst [of e md_files w] by auto
  have "saved_content e ?h f = Some content"
    using a by (simp add: saved_content_Some)
  with a have "name f \<in> fst ` set ?S"
    unfolding store_all_keys [of e ?h md_files "[]", simplified] by blast
  moreover have "endswith (name f) ''.md''"
    using a fetch_docs_try_md by blast
  ultimately have nonempty: "cumind_files ?S \<noteq> []"
    using cumind_files_nonempty [of "name f" ?S] by simp
  from a merge_nav_wellformed [of d items ?sect]
  obtain kept where m: "merge_nav (YDict d) ?sect
      = Inr (YDict (dict_set d ''nav''
           (YList (filter (\<lambda>item. \<not> is_cumind_item item) kept @ [YDict [(''CuMind'', YList ?sect)]]))))"
    by blast
  let ?items' = "filter (\<lambda>item. \<not> is_cumind_item item) kept @ [YDict [(''CuMind'', YList ?sect)]]"
  let ?C = "YDict (dict_set d ''nav'' (YList ?items'))"
  let ?W = "\<lparr>cumind_dir = Some ?S, mkdocs_yml = mkdocs_yml w, stdout = []\<rparr>"
  have first: "fst (main e w) = None \<and> mkdocs_yml ?w1 = Some ?C"
    using main_nonempty [of e w ?W w] md a
      update_mkdocs_nav_ok [of ?W ?S "YDict d" ?C] nonempty m
    by simp
  let ?W' = "\<lparr>cumind_dir = Some ?S, mkdocs_yml = Some ?C, stdout = []\<rparr>"
  have second: "fst (main e ?w1) = None \<and> mkdocs_yml (snd (main e ?w1)) = Some ?C"
    using main_nonempty [of e w ?W' ?w1] md first
      update_mkdocs_nav_ok [of ?W' ?S ?C ?C] nonempty merge_nav_again [of d kept ?sect]
    by simp
  show "fst (main e w) = None" using first by simp
  show "fst (main e ?w1) = None" using second by simp
  show "mkdocs_yml (snd (main e ?w1)) = mkdocs_yml ?w1" using first second by simp
  have "dict_get (dict_set d ''nav'' (YList ?items')) ''nav'' = Some (YList ?items')"
    by simp
  moreover have "length (filter is_cumind_item ?items') = 1"
    by (simp add: dict_has_def)
  ultimately show "\<exists>d' items'. mkdocs_yml (snd (main e ?w1)) = Some (YDict d')
                \<and> dict_get d' ''nav'' = Some (YList items')
                \<and> length (filter is_cumind_item items') = 1"
    using second by blast
qed

theorem main_twice_witness:
  "fetch_docs_try env_online
     = Inr [\<lparr>name = ''usage.md'', download_url = ''https://raw/usage.md''\<rparr>,
            \<lparr>name = ''api_guide.md'', download_url = ''https://raw/api_guide.md''\<rparr>]
   \<and> download_try env_online \<lparr>name = ''usage.md'', download_url = ''https://raw/usage.md''\<rparr>
         (auth_headers env_online) = Inr ''Usage''
   \<and> mkdocs_yml example_world
       = Some (YDict [(''site_name'', YStr ''Docs''), (''nav'', YList [YStr ''index.md''])])
   \<and> cumind_dir (snd (main env_online (snd (main env_online example_world))))
       = cumind_dir (snd (main env_online example_world))
   \<and> fst (main env_online example_world) = None
   \<and> fst (main env_online (snd (main env_online example_world))) = None
   \<and> mkdocs_yml (snd (main env_online (snd (main env_online example_world))))
       = mkdocs_yml (snd (main env_online example_world))
   \<and> (\<exists>d' items'. mkdocs_yml (snd (main env_online (snd (main env_online example_world)))) = Some (YDict d')
         \<and> dict_get d' ''nav'' = Some (YList items')
         \<and> length (filter is_cumind_item items') = 1)"
proof -
  let ?f = "\<lparr>name = ''usage.md'', download_url = ''https://raw/usage.md''\<rparr>"
  let ?md = "[?f, \<lparr>name = ''api_guide.md'', download_url = ''https://raw/api_guide.md''\<rparr>]"
  let ?d = "[(''site_name'', YStr ''Docs''), (''nav'', YList [YStr ''index.md''])]"
  have a: "fetch_docs_try env_online = Inr ?md"
    by (simp add: fetch_docs_try_def env_online_def raise_for_status_def docs_listing_def endswith_def)
  have b: "?f \<in> set ?md" by simp
  have c: "download_try env_online ?f (auth_headers env_online) = Inr ''Usage''"
    by (simp add: download_try_def env_online_def raise_for_status_def)
  have d: "''Usage'' \<noteq> ''''" by simp
  have e: "mkdocs_yml example_world = Some (YDict ?d)"
    by (simp add: example_world_def)
  have f: "dict_get ?d ''nav'' = None \<or> dict_get ?d ''nav'' = Some (YList [YStr ''index.md''])"
    by (simp add: dict_get_def)
  from main_twice [of env_online example_world ?md ?f "''Usage''" ?d "[YStr ''index.md'']"] a b c d e f
  show ?thesis by blast
qed

text \<open>
  C1 as stated fails when nothing is stored: with an empty remote listing both runs
  leave the configuration as it was, here with no entry for the section.
\<close>

theorem main_twice_empty_remote_counterexample:
  "mkdocs_yml (snd (main env_empty (snd (main env_empty example_world))))
     = Some (YDict [(''site_name'', YStr ''Docs''), (''nav'', YList [YStr ''index.md''])])
   \<and> filter is_cumind_item [YStr ''index.md''] = []"
  by code_simp

text \<open>
  C6, as the code has it. When the listed names are distinct, exactly one listed file
  fails to download and every other download succeeds with text that is not empty,
  the store ends with exactly the other files, each holding its text with front
  matter, one fewer than were listed. When at least two files were listed and the
  configuration is a mapping whose \<open>nav\<close> is a list, the run ends without an exception
  and the section appended to \<open>nav\<close> has one entry of title and path for each stored
  file, in ascending order of file name.
\<close>

theorem main_one_download_fails:
  assumes "fetch_docs_try e = Inr md_files"
    and "distinct (map name md_files)"
    and "failed \<in> set md_files"
    and "download_try e failed (auth_headers e) = Inl ex"
    and "\<forall>f \<in> set md_files. f \<noteq> failed \<longrightarrow>
           download_try e f (auth_headers e) = Inr (body f) \<and> body f \<noteq> ''''"
  shows "cumind_dir (snd (main e w))
           = Some (map (\<lambda>f. (name f, with_frontmatter (name f) (body f)))
                     (filter (\<lambda>f. f \<noteq> failed) md_files))
         \<and> length (filter (\<lambda>f. f \<noteq> failed) md_files) = length md_files - 1
         \<and> (2 \<le> length md_files \<and> mkdocs_yml w = Some (YDict d)
              \<and> dict_get d ''nav'' = Some (YList items)
            \<longrightarrow> fst (main e w) = None
                \<and> (\<exists>d'. mkdocs_yml (snd (main e w)) = Some (YDict d')
                      \<and> dict_get d' ''nav'' =
                          Some (YList (filter (\<lambda>item. \<not> is_cumind_item item) items
                            @ [YDict [(''CuMind'', YList
                                 (map (\<lambda>file. YDict [(derive_title file, YStr (''CuMind/'' @ file))])
                                    (sort (map name (filter (\<lambda>f. f \<noteq> failed) md_files)))))]]))))"
proof -
  let ?h = "auth_headers e"
  let ?rest = "filter (\<lambda>f. f \<noteq> failed) md_files"
  let ?k = "\<lambda>f. (name f, with_frontmatter (name f) (body f))"
  let ?g = "\<lambda>f. map_option (\<lambda>content. (name f, with_frontmatter (name f) content))
                  (saved_content e ?h f)"
  let ?S = "store_all e ?h md_files []"
  have md: "fst (fetch_docs_from_github e w) = md_files"
    using assms(1) by (rule fetch_docs_try_fst)
  have "?g failed = None"
    using assms(4) by (simp add: saved_content_def)
  moreover have "\<forall>f \<in> set md_files. f \<noteq> failed \<longrightarrow> ?g f = Some (?k f)"
    using assms(5) by (simp add: saved_content_def)
  ultimately have "List.map_filter ?g md_files = map ?k ?rest"
    by (rule map_filter_one_failed)
  moreover have "?S = [] @ List.map_filter ?g md_files"
    using assms(2) by (intro store_all_distinct) simp_all
  ultimately have S: "?S = map ?k ?rest"
    by simp
  have store: "cumind_dir (snd (main e w)) = Some (map ?k ?rest)"
    using main_cumind_dir [of e w w] md S by simp
  have "distinct md_files"
    using assms(2) by (rule distinct_map [THEN iffD1, THEN conjunct1])
  then have len: "length ?rest = length md_files - 1"
    using assms(3) by (rule length_filter_neq)
  have nav: "fst (main e w) = None
             \<and> (\<exists>d'. mkdocs_yml (snd (main e w)) = Some (YDict d')
                   \<and> dict_get d' ''nav'' =
                       Some (YList (filter (\<lambda>item. \<not> is_cumind_item item) items
                         @ [YDict [(''CuMind'', YList
                              (map (\<lambda>file. YDict [(derive_title file, YStr (''CuMind/'' @ file))])
                                 (sort (map name ?rest))))]])))"
    if two: "2 \<le> length md_files" and cfg: "mkdocs_yml w = Some (YDict d)"
      and navl: "dict_get d ''nav'' = Some (YList items)"
  proof -
    have "\<forall>n \<in> set (map name ?rest). endswith n ''.md''"
      using fetch_docs_try_md [OF assms(1)] by auto
    then have "filter (\<lambda>n. endswith n ''.md'') (map name ?rest) = map name ?rest"
      by (intro filter_True)
    moreover have "map fst (map ?k ?rest) = map name ?rest"
      by simp
    ultimately have files: "cumind_files ?S = sort (map name ?rest)"
      unfolding cumind_files_def S by (simp only:)
    have "?rest \<noteq> []"
      using len two by auto
    moreover have "length (cumind_files ?S) = length ?rest"
      using files by simp
    ultimately have nonempty: "cumind_files ?S \<noteq> []"
      by auto
    have "md_files \<noteq> []"
      using two by auto
    let ?W = "\<lparr>cumind_dir = Some ?S, mkdocs_yml = mkdocs_yml w, stdout = []\<rparr>"
    let ?d' = "dict_set d ''nav'' (YList (filter (\<lambda>item. \<not> is_cumind_item item) items
                 @ [YDict [(''CuMind'', YList (cumind_nav (cumind_files ?S)))]]))"
    have "fst (main e w) = None \<and> mkdocs_yml (snd (main e w)) = Some (YDict ?d')"
      using main_nonempty [of e w ?W w] md \<open>md_files \<noteq> []\<close>
        update_mkdocs_nav_list [of ?W d items ?S] cfg navl nonempty
      by simp
    moreover have "dict_get ?d' ''nav'' =
        Some (YList (filter (\<lambda>item. \<not> is_cumind_item item) items
           @ [YDict [(''CuMind'', YList
                (map (\<lambda>file. YDict [(derive_title file, YStr (''CuMind/'' @ file))])
                   (sort (map name ?rest))))]]))"
      by (simp add: files cumind_nav_def)
    ultimately show ?thesis by blast
  qed
  from store len nav show ?thesis by blast
qed

theorem main_one_download_fails_witness:
  "fetch_docs_try env_one_fails
     = Inr [\<lparr>name = ''usage.md'', download_url = ''https://raw/usage.md''\<rparr>,
            \<lparr>name = ''api_guide.md'', download_url = ''https://raw/api_guide.md''\<rparr>]
   \<and> download_try env_one_fails \<lparr>name = ''api_guide.md'', download_url = ''https://raw/api_guide.md''\<rparr>
         (auth_headers env_one_fails) = Inl (HTTPError 404)
   \<and> download_try env_one_fails \<lparr>name = ''usage.md'', download_url = ''https://raw/usage.md''\<rparr>
         (auth_headers env_one_fails) = Inr ''Usage''
   \<and> cumind_dir (snd (main env_one_fails world_stale))
       = Some [(''usage.md'', with_frontmatter ''usage.md'' ''Usage'')]
   \<and> fst (main env_one_fails world_stale) = None
   \<and> (\<exists>d'. mkdocs_yml (snd (main env_one_fails world_stale)) = Some (YDict d')
         \<and> dict_get d' ''nav'' =
             Some (YList [YStr ''index.md'', YDict [(''About'', YStr ''about.md'')],
                          YDict [(''CuMind'', YList [YDict [(''Usage'', YStr ''CuMind/usage.md'')]])]]))"
proof -
  let ?u = "\<lparr>name = ''usage.md'', download_url = ''https://raw/usage.md''\<rparr>"
  let ?a = "\<lparr>name = ''api_guide.md'', download_url = ''https://raw/api_guide.md''\<rparr>"
  let ?items = "[YStr ''index.md'', stale_item, YDict [(''About'', YStr ''about.md'')]]"
  have a: "fetch_docs_try env_one_fails = Inr [?u, ?a]"
    by (simp add: fetch_docs_try_def env_one_fails_def raise_for_status_def docs_listing_def
          endswith_def)
  have b: "distinct (map name [?u, ?a])"
    by simp
  have c: "?a \<in> set [?u, ?a]"
    by simp
  have d: "download_try env_one_fails ?a (auth_headers env_one_fails) = Inl (HTTPError 404)"
    by (simp add: download_try_def env_one_fails_def raise_for_status_def)
  have u: "download_try env_one_fails ?u (auth_headers env_one_fails) = Inr ''Usage''"
    by (simp add: download_try_def env_one_fails_def raise_for_status_def)
  then have e: "\<forall>f \<in> set [?u, ?a]. f \<noteq> ?a \<longrightarrow>
      download_try env_one_fails f (auth_headers env_one_fails) = Inr ((\<lambda>f. ''Usage'') f)
      \<and> (\<lambda>f. ''Usage'') f \<noteq> ''''"
    by simp
  have f: "2 \<le> length [?u, ?a]"
    by simp
  have g: "mkdocs_yml world_stale = Some (YDict stale_config)"
    by (simp add: world_stale_def)
  have h: "dict_get stale_config ''nav'' = Some (YList ?items)"
    by (simp add: dict_get_def stale_config_def)
  have i: "is_cumind_item stale_item"
    by (simp add: stale_item_def dict_has_def)
  have t: "derive_title ''usage.md'' = ''Usage''"
    by code_simp
  from main_one_download_fails [OF a b c d e, of world_stale stale_config ?items] f g h
  have "cumind_dir (snd (main env_one_fails world_stale))
          = Some [(''usage.md'', with_frontmatter ''usage.md'' ''Usage'')]
        \<and> fst (main env_one_fails world_stale) = None
        \<and> (\<exists>d'. mkdocs_yml (snd (main env_one_fails world_stale)) = Some (YDict d')
             \<and> dict_get d' ''nav'' =
                 Some (YList [YStr ''index.md'', YDict [(''About'', YStr ''about.md'')],
                          YDict [(''CuMind'', YList [YDict [(''Usage'', YStr ''CuMind/usage.md'')]])]]))"
    by (simp add: i t dict_has_def)
  with a d u show ?thesis by simp
qed

text \<open>
  C6 as stated fails in two ways. A download that succeeds with empty text is not
  stored: of two listed files, one failing and one empty, none is stored. And when
  the only listed file fails, the store is empty and the navigation is not recomputed:
  the stale section stays.
\<close>

theorem main_one_download_fails_counterexample:
  "fetch_docs_try env_one_fails_one_empty
     = Inr [\<lparr>name = ''usage.md'', download_url = ''https://raw/usage.md''\<rparr>,
            \<lparr>name = ''api_guide.md'', download_url = ''https://raw/api_guide.md''\<rparr>]
   \<and> download_try env_one_fails_one_empty
         \<lparr>name = ''api_guide.md'', download_url = ''https://raw/api_guide.md''\<rparr> []
       = Inl (Timeout ''timed out'')
   \<and> download_try env_one_fails_one_empty
         \<lparr>name = ''usage.md'', download_url = ''https://raw/usage.md''\<rparr> []
       = Inr ''''
   \<and> cumind_dir (snd (main env_one_fails_one_empty world_stale)) = Some []
   \<and> fetch_docs_try env_only_one_fails
       = Inr [\<lparr>name = ''usage.md'', download_url = ''https://raw/usage.md''\<rparr>]
   \<and> download_try env_only_one_fails
         \<lparr>name = ''usage.md'', download_url = ''https://raw/usage.md''\<rparr> []
       = Inl (Timeout ''timed out'')
   \<and> cumind_dir (snd (main env_only_one_fails world_stale)) = Some []
   \<and> mkdocs_yml (snd (main env_only_one_fails world_stale))
       = Some (YDict [(''site_name'', YStr ''Docs''),
                      (''nav'', YList [YStr ''index.md'',
                         YDict [(''CuMind'', YList [YDict [(''Old'', YStr ''CuMind/old.md'')]])],
                         YDict [(''About'', YStr ''about.md'')]])])"
  by code_simp

text \<open>
  C10, as the code has it. A listed file whose download succeeds with empty text is
  skipped by the loop: nothing is written and nothing is printed for it. The run ends
  with the same exception status, the same store and the same configuration as the
  run in which the download of that file fails instead. With distinct listed names,
  the file is not in the store after the run. When another listed file downloads with
  text that is not empty, and the configuration is a mapping whose \<open>nav\<close> is absent or
  a list, the run ends without an exception and the only section entry of the
  resulting \<open>nav\<close> is the one built from the store, in which the path of the skipped
  file does not occur.
\<close>

theorem empty_download_is_skipped:
  assumes "fetch_docs_try e = Inr md_files"
    and "distinct (map name md_files)"
    and "file_info \<in> set md_files"
    and "download_try e file_info (auth_headers e) = Inr ''''"
  shows "main_loop e (auth_headers e) (file_info # rest) w = main_loop e (auth_headers e) rest w
         \<and> (let e' = e\<lparr>get_text := (\<lambda>url headers. if url = download_url file_info then Inl ex
                                                     else get_text e url headers)\<rparr>
            in download_try e' file_info (auth_headers e') = Inl ex
               \<and> fst (main e' w) = fst (main e w)
               \<and> cumind_dir (snd (main e' w)) = cumind_dir (snd (main e w))
               \<and> mkdocs_yml (snd (main e' w)) = mkdocs_yml (snd (main e w)))
         \<and> (\<exists>files. cumind_dir (snd (main e w)) = Some files
               \<and> name file_info \<notin> fst ` set files
               \<and> (other \<in> set md_files
                    \<and> download_try e other (auth_headers e) = Inr content \<and> content \<noteq> ''''
                    \<and> mkdocs_yml w = Some (YDict d)
                    \<and> (dict_get d ''nav'' = None \<or> dict_get d ''nav'' = Some (YList items))
                  \<longrightarrow> fst (main e w) = None
                      \<and> (\<exists>d' items'. mkdocs_yml (snd (main e w)) = Some (YDict d')
                            \<and> dict_get d' ''nav'' = Some (YList items')
                            \<and> filter is_cumind_item items'
                                = [YDict [(''CuMind'', YList (cumind_nav (cumind_files files)))]]
                            \<and> ''CuMind/'' @ name file_info
                                \<notin> set (concat (map yaml_strings (filter is_cumind_item items'))))))"
proof (intro conjI)
  show "main_loop e (auth_headers e) (file_info # rest) w = main_loop e (auth_headers e) rest w"
    using assms(4) by (simp add: download_file_def)
next
  let ?h = "auth_headers e"
  let ?e' = "e\<lparr>get_text := (\<lambda>url headers. if url = download_url file_info then Inl ex
                                            else get_text e url headers)\<rparr>"
  have h: "auth_headers ?e' = ?h"
    by (simp add: auth_headers_def get_github_token_def)
  have l: "fst (fetch_docs_from_github ?e' w) = fst (fetch_docs_from_github e w)"
    by (simp add: fetch_docs_from_github_def fetch_docs_try_def h)
  have fails: "download_try ?e' file_info ?h = Inl ex"
    by (simp add: download_try_def)
  have "saved_content ?e' ?h f = saved_content e ?h f" for f
  proof (cases "download_url f = download_url file_info")
    case True
    then have "download_try e f ?h = download_try e file_info ?h"
      by (simp add: download_try_def)
    with assms(4) True show ?thesis
      by (simp add: saved_content_def download_try_def)
  next
    case False
    then show ?thesis
      by (simp add: saved_content_def download_try_def)
  qed
  then have "\<forall>f \<in> set (fst (fetch_docs_from_github e w)).
      saved_content ?e' (auth_headers ?e') f = saved_content e ?h f"
    by (simp add: h)
  from main_cong [OF l this, of w] fails h
  show "let e' = ?e'
        in download_try e' file_info (auth_headers e') = Inl ex
           \<and> fst (main e' w) = fst (main e w)
           \<and> cumind_dir (snd (main e' w)) = cumind_dir (snd (main e w))
           \<and> mkdocs_yml (snd (main e' w)) = mkdocs_yml (snd (main e w))"
    by (simp add: Let_def)
next
  let ?h = "auth_headers e"
  let ?S = "store_all e ?h md_files []"
  let ?sect = "cumind_nav (cumind_files ?S)"
  let ?fresh = "YDict [(''CuMind'', YList ?sect)]"
  have md: "fst (fetch_docs_from_github e w) = md_files"
    using assms(1) by (rule fetch_docs_try_fst)
  have store: "cumind_dir (snd (main e w)) = Some ?S"
    using main_cumind_dir [of e w w] md by simp
  have none: "saved_content e ?h file_info = None"
    using assms(4) by (simp add: saved_content_def)
  have absent: "name file_info \<notin> fst ` set ?S"
  proof
    assume "name file_info \<in> fst ` set ?S"
    then obtain g where g: "g \<in> set md_files" "name g = name file_info"
        "saved_content e ?h g \<noteq> None"
      using store_all_keys [of e ?h md_files "[]"] by auto
    from assms(2) have "inj_on name (set md_files)"
      by (simp add: distinct_map)
    with g(1,2) assms(3) have "g = file_info"
      by (auto dest: inj_onD)
    with g(3) none show False by simp
  qed
  have no_path: "''CuMind/'' @ name file_info \<notin> set (yaml_strings ?fresh)"
  proof
    assume "''CuMind/'' @ name file_info \<in> set (yaml_strings ?fresh)"
    then have "''CuMind/'' @ name file_info \<in> set (yaml_strings (YList ?sect))"
      by simp
    then have "name file_info \<in> set (cumind_files ?S)"
      unfolding yaml_strings_cumind_nav by auto
    with cumind_files_subset [of ?S] absent show False by blast
  qed
  have nav: "fst (main e w) = None
             \<and> (\<exists>d' items'. mkdocs_yml (snd (main e w)) = Some (YDict d')
                   \<and> dict_get d' ''nav'' = Some (YList items')
                   \<and> filter is_cumind_item items' = [?fresh]
                   \<and> ''CuMind/'' @ name file_info
                       \<notin> set (concat (map yaml_strings (filter is_cumind_item items'))))"
    if a: "other \<in> set md_files
           \<and> download_try e other ?h = Inr content \<and> content \<noteq> ''''
           \<and> mkdocs_yml w = Some (YDict d)
           \<and> (dict_get d ''nav'' = None \<or> dict_get d ''nav'' = Some (YList items))"
  proof -
    have "md_files \<noteq> []"
      using a by auto
    have "saved_content e ?h other = Some content"
      using a by (simp add: saved_content_Some)
    with a have "name other \<in> fst ` set ?S"
      unfolding store_all_keys [of e ?h md_files "[]", simplified] by blast
    moreover have "endswith (name other) ''.md''"
      using a fetch_docs_try_md [OF assms(1)] by blast
    ultimately have nonempty: "cumind_files ?S \<noteq> []"
      using cumind_files_nonempty [of "name other" ?S] by simp
    from a merge_nav_wellformed [of d items ?sect]
    obtain kept where m: "merge_nav (YDict d) ?sect
        = Inr (YDict (dict_set d ''nav''
             (YList (filter (\<lambda>item. \<not> is_cumind_item item) kept @ [?fresh]))))"
      by blast
    let ?items' = "filter (\<lambda>item. \<not> is_cumind_item item) kept @ [?fresh]"
    let ?C = "YDict (dict_set d ''nav'' (YList ?items'))"
    let ?W = "\<lparr>cumind_dir = Some ?S, mkdocs_yml = mkdocs_yml w, stdout = []\<rparr>"
    have run: "fst (main e w) = None \<and> mkdocs_yml (snd (main e w)) = Some ?C"
      using main_nonempty [of e w ?W w] md \<open>md_files \<noteq> []\<close> a
        update_mkdocs_nav_ok [of ?W ?S "YDict d" ?C] nonempty m
      by simp
    have get: "dict_get (dict_set d ''nav'' (YList ?items')) ''nav'' = Some (YList ?items')"
      by simp
    have only: "filter is_cumind_item ?items' = [?fresh]"
      by (simp add: dict_has_def)
    have "concat (map yaml_strings (filter is_cumind_item ?items')) = yaml_strings ?fresh"
      unfolding only by simp
    with no_path have "''CuMind/'' @ name file_info
        \<notin> set (concat (map yaml_strings (filter is_cumind_item ?items')))"
      by simp
    with run get only show ?thesis by blast
  qed
  from store absent nav
  show "\<exists>files. cumind_dir (snd (main e w)) = Some files
          \<and> name file_info \<notin> fst ` set files
          \<and> (other \<in> set md_files
               \<and> download_try e other (auth_headers e) = Inr content \<and> content \<noteq> ''''
               \<and> mkdocs_yml w = Some (YDict d)
               \<and> (dict_get d ''nav'' = None \<or> dict_get d ''nav'' = Some (YList items))
             \<longrightarrow> fst (main e w) = None
                 \<and> (\<exists>d' items'. mkdocs_yml (snd (main e w)) = Some (YDict d')
                       \<and> dict_get d' ''nav'' = Some (YList items')
                       \<and> filter is_cumind_item items'
                           = [YDict [(''CuMind'', YList (cumind_nav (cumind_files files)))]]
                       \<and> ''CuMind/'' @ name file_info
                           \<notin> set (concat (map yaml_strings (filter is_cumind_item items')))))"
    by blast
qed

theorem empty_download_is_skipped_witness:
  "fetch_docs_try env_empty_file
     = Inr [\<lparr>name = ''usage.md'', download_url = ''https://raw/usage.md''\<rparr>,
            \<lparr>name = ''api_guide.md'', download_url = ''https://raw/api_guide.md''\<rparr>]
   \<and> download_try env_empty_file
         \<lparr>name = ''api_guide.md'', download_url = ''https://raw/api_guide.md''\<rparr>
         (auth_headers env_empty_file) = Inr ''''
   \<and> download_try env_empty_file
         \<lparr>name = ''usage.md'', download_url = ''https://raw/usage.md''\<rparr>
         (auth_headers env_empty_file) = Inr ''Usage''
   \<and> mkdocs_yml world_stale = Some (YDict stale_config)
   \<and> dict_get stale_config ''nav''
       = Some (YList [YStr ''index.md'', stale_item, YDict [(''About'', YStr ''about.md'')]])
   \<and> main_loop env_empty_file (auth_headers env_empty_file)
         [\<lparr>name = ''api_guide.md'', download_url = ''https://raw/api_guide.md''\<rparr>] world_stale
       = (None, world_stale)
   \<and> fst (main env_empty_file world_stale) = None
   \<and> (\<exists>files. cumind_dir (snd (main env_empty_file world_stale)) = Some files
         \<and> ''api_guide.md'' \<notin> fst ` set files)
   \<and> (\<exists>d' items'. mkdocs_yml (snd (main env_empty_file world_stale)) = Some (YDict d')
         \<and> dict_get d' ''nav'' = Some (YList items')
         \<and> ''CuMind/api_guide.md''
             \<notin> set (concat (map yaml_strings (filter is_cumind_item items'))))"
proof -
  let ?u = "\<lparr>name = ''usage.md'', download_url = ''https://raw/usage.md''\<rparr>"
  let ?a = "\<lparr>name = ''api_guide.md'', download_url = ''https://raw/api_guide.md''\<rparr>"
  let ?items = "[YStr ''index.md'', stale_item, YDict [(''About'', YStr ''about.md'')]]"
  have a: "fetch_docs_try env_empty_file = Inr [?u, ?a]"
    by (simp add: fetch_docs_try_def env_empty_file_def raise_for_status_def docs_listing_def
          endswith_def)
  have b: "distinct (map name [?u, ?a])"
    by simp
  have c: "?a \<in> set [?u, ?a]"
    by simp
  have d: "download_try env_empty_file ?a (auth_headers env_empty_file) = Inr ''''"
    by (simp add: download_try_def env_empty_file_def raise_for_status_def)
  have o: "?u \<in> set [?u, ?a]"
    by simp
  have u: "download_try env_empty_file ?u (auth_headers env_empty_file) = Inr ''Usage''"
    by (simp add: download_try_def env_empty_file_def raise_for_status_def)
  have n: "''Usage'' \<noteq> ''''"
    by simp
  have g: "mkdocs_yml world_stale = Some (YDict stale_config)"
    by (simp add: world_stale_def)
  have h: "dict_get stale_config ''nav'' = Some (YList ?items)"
    by (simp add: dict_get_def stale_config_def)
  from empty_download_is_skipped
         [OF a b c d, of "[]" world_stale "Timeout ''timed out''" ?u "''Usage''" stale_config ?items]
       o u n g h
  have "main_loop env_empty_file (auth_headers env_empty_file) [?a] world_stale = (None, world_stale)
        \<and> fst (main env_empty_file world_stale) = None
        \<and> (\<exists>files. cumind_dir (snd (main env_empty_file world_stale)) = Some files
              \<and> ''api_guide.md'' \<notin> fst ` set files)
        \<and> (\<exists>d' items'. mkdocs_yml (snd (main env_empty_file world_stale)) = Some (YDict d')
              \<and> dict_get d' ''nav'' = Some (YList items')
              \<and> ''CuMind/api_guide.md''
                  \<notin> set (concat (map yaml_strings (filter is_cumind_item items'))))"
    by auto
  with a d u g h show ?thesis by simp
qed

text \<open>
  C10 as stated fails when nothing is stored: the navigation is then not recomputed,
  and a section entry for the file left by an earlier run stays in the configuration.
\<close>

theorem empty_download_stale_section_counterexample:
  "fetch_docs_try env_only_empty_file
     = Inr [\<lparr>name = ''usage.md'', download_url = ''https://raw/usage.md''\<rparr>]
   \<and> download_try env_only_empty_file
         \<lparr>name = ''usage.md'', download_url = ''https://raw/usage.md''\<rparr> []
       = Inr ''''
   \<and> fst (main env_only_empty_file world_usage_listed) = None
   \<and> cumind_dir (snd (main env_only_empty_file world_usage_listed)) = Some []
   \<and> mkdocs_yml (snd (main env_only_empty_file world_usage_listed))
       = Some (YDict [(''site_name'', YStr ''Docs''),
                      (''nav'', YList [YStr ''index.md'',
                         YDict [(''CuMind'', YList [YDict [(''Usage'', YStr ''CuMind/usage.md'')]])]])])"
  by code_simp

end
